theory Spec2Isabelle
  imports Complex_Main
begin

section \<open>Array elements\<close>

text \<open>
  The estimator \<open>weighted_quantile\<close> of
  \<open>esmvaltool/diag_scripts/weighting/weighted_temperature_graph.py\<close> works on numpy
  arrays of floats. The inputs (samples, quantiles, weights) are modelled as lists of
  reals and the arithmetic on them is exact: rounding, overflow and signed zeros are
  not modelled. What numpy's arithmetic does where real arithmetic is undefined is
  modelled: a division by zero does not raise, it yields an infinity or NaN, and these
  values then flow through the interpolation under the IEEE rules.
\<close>

datatype npfloat = Finite real | PInf | NInf | NaN

fun fneg :: "npfloat \<Rightarrow> npfloat" where
  "fneg (Finite x) = Finite (- x)"
| "fneg PInf = NInf"
| "fneg NInf = PInf"
| "fneg NaN = NaN"

fun fadd :: "npfloat \<Rightarrow> npfloat \<Rightarrow> npfloat" where
  "fadd (Finite x) (Finite y) = Finite (x + y)"
| "fadd NaN b = NaN"
| "fadd a NaN = NaN"
| "fadd PInf NInf = NaN"
| "fadd NInf PInf = NaN"
| "fadd PInf b = PInf"
| "fadd a PInf = PInf"
| "fadd NInf b = NInf"
| "fadd a NInf = NInf"

definition fsub :: "npfloat \<Rightarrow> npfloat \<Rightarrow> npfloat" where
  "fsub a b = fadd a (fneg b)"

fun fmul :: "npfloat \<Rightarrow> npfloat \<Rightarrow> npfloat" where
  "fmul (Finite x) (Finite y) = Finite (x * y)"
| "fmul NaN b = NaN"
| "fmul a NaN = NaN"
| "fmul (Finite x) PInf = (if x = 0 then NaN else if 0 < x then PInf else NInf)"
| "fmul (Finite x) NInf = (if x = 0 then NaN else if 0 < x then NInf else PInf)"
| "fmul PInf (Finite y) = (if y = 0 then NaN else if 0 < y then PInf else NInf)"
| "fmul NInf (Finite y) = (if y = 0 then NaN else if 0 < y then NInf else PInf)"
| "fmul PInf PInf = PInf"
| "fmul PInf NInf = NInf"
| "fmul NInf PInf = NInf"
| "fmul NInf NInf = PInf"

fun fdiv :: "npfloat \<Rightarrow> npfloat \<Rightarrow> npfloat" where
  "fdiv (Finite x) (Finite y) =
     (if y \<noteq> 0 then Finite (x / y)
      else if x = 0 then NaN else if 0 < x then PInf else NInf)"
| "fdiv NaN b = NaN"
| "fdiv a NaN = NaN"
| "fdiv (Finite x) PInf = Finite 0"
| "fdiv (Finite x) NInf = Finite 0"
| "fdiv PInf (Finite y) = (if 0 \<le> y then PInf else NInf)"
| "fdiv NInf (Finite y) = (if 0 \<le> y then NInf else PInf)"
| "fdiv PInf b = NaN"
| "fdiv NInf b = NaN"

text \<open>Comparisons: every comparison with NaN is false.\<close>

fun fless :: "npfloat \<Rightarrow> npfloat \<Rightarrow> bool" where
  "fless (Finite x) (Finite y) = (x < y)"
| "fless NaN b = False"
| "fless a NaN = False"
| "fless a NInf = False"
| "fless PInf b = False"
| "fless NInf b = True"
| "fless a PInf = True"

fun feq :: "npfloat \<Rightarrow> npfloat \<Rightarrow> bool" where
  "feq NaN b = False"
| "feq a NaN = False"
| "feq a b = (a = b)"

definition fle :: "npfloat \<Rightarrow> npfloat \<Rightarrow> bool" where
  "fle a b = (fless a b \<or> feq a b)"

section \<open>Errors\<close>

text \<open>
  The exceptions the function and the numpy calls in it can raise. A \<open>ValueError\<close>
  carries its message, which tells the function's own error (on the quantiles) from
  numpy's. \<open>TypeError\<close> stands for an operation on an object of the wrong kind; it
  only occurs in the model of the function on a store of objects.
\<close>

datatype error = ValueError string | IndexError | TypeError

definition quantile_error :: error where
  "quantile_error = ValueError ''Quantiles should be between 0.0 and 1.0''"

definition empty_min_error :: error where
  "empty_min_error =
     ValueError ''zero-size array to reduction operation minimum which has no identity''"

definition empty_max_error :: error where
  "empty_max_error =
     ValueError ''zero-size array to reduction operation maximum which has no identity''"

definition empty_xp_error :: error where
  "empty_xp_error = ValueError ''array of sample points is empty''"

definition xp_fp_error :: error where
  "xp_fp_error = ValueError ''fp and xp are not of the same length.''"

section \<open>The numpy operations used\<close>

text \<open>
  \<open>np.argsort(values)\<close>: the indices that sort \<open>values\<close> in ascending order. Equal
  values keep their relative order here (numpy's default sort does so on short
  arrays, where it is an insertion sort, and leaves the order of ties open on long
  ones).
\<close>

definition argsort :: "real list \<Rightarrow> nat list" where
  "argsort a = sort_key (\<lambda>i. a ! i) [0..<length a]"

text \<open>
  \<open>a[idx]\<close> with an index array: a new array of the elements at \<open>idx\<close>; an index
  beyond the end raises \<open>IndexError\<close>.
\<close>

definition fancy_index :: "real list \<Rightarrow> nat list \<Rightarrow> error + real list" where
  "fancy_index a idx =
     (if \<forall>i\<in>set idx. i < length a then Inr (map (\<lambda>i. a ! i) idx) else Inl IndexError)"

fun cumsum_from :: "real \<Rightarrow> real list \<Rightarrow> real list" where
  "cumsum_from acc [] = []"
| "cumsum_from acc (w # ws) = (acc + w) # cumsum_from (acc + w) ws"

definition cumsum :: "real list \<Rightarrow> real list" where
  "cumsum a = cumsum_from 0 a"

definition np_min :: "real list \<Rightarrow> error + real" where
  "np_min a = (if a = [] then Inl empty_min_error else Inr (Min (set a)))"

definition np_max :: "real list \<Rightarrow> error + real" where
  "np_max a = (if a = [] then Inl empty_max_error else Inr (Max (set a)))"

text \<open>
  \<open>np.interp(x, xp, fp)\<close>, after numpy's implementation. For each \<open>x\<close> it searches the
  index \<open>j\<close> of the interval of \<open>xp\<close> that holds \<open>x\<close>: \<open>len(xp)\<close> when \<open>x\<close> is above the
  last point, \<open>-1\<close> when it is below the first, otherwise one less than the first index
  \<open>i \<ge> 1\<close> with \<open>\<not> x \<ge> xp[i]\<close>. (numpy scans linearly on short arrays and bisects from
  the previous answer on long ones; on a non-decreasing \<open>xp\<close> without NaN both give the
  last \<open>j\<close> with \<open>xp[j] \<le> x\<close>.) Outside the points the result is the first or the last
  \<open>fp\<close>; at a point it is the \<open>fp\<close> there; between two points it is on the line through
  them, and a NaN found there is retried from the right end point.
\<close>

definition binary_search_with_guess :: "real \<Rightarrow> npfloat list \<Rightarrow> int" where
  "binary_search_with_guess key arr =
     (if fless (last arr) (Finite key) then int (length arr)
      else if fless (Finite key) (hd arr) then - 1
      else int (length (takeWhile (\<lambda>a. fle a (Finite key)) (tl arr))))"

definition interp_at :: "npfloat list \<Rightarrow> real list \<Rightarrow> real \<Rightarrow> npfloat" where
  "interp_at dx dy x_val =
     (let lenxp = length dx; lval = Finite (hd dy); rval = Finite (last dy) in
      if lenxp = 1 then
        (if fless (Finite x_val) (hd dx) then lval
         else if fless (hd dx) (Finite x_val) then rval
         else Finite (hd dy))
      else
        let j = binary_search_with_guess x_val dx in
        if j = - 1 then lval
        else if j = int lenxp then rval
        else if j = int lenxp - 1 then Finite (dy ! nat j)
        else if feq (dx ! nat j) (Finite x_val) then Finite (dy ! nat j)
        else
          let slope = fdiv (Finite (dy ! (nat j + 1) - dy ! nat j))
                           (fsub (dx ! (nat j + 1)) (dx ! nat j));
              r = fadd (fmul slope (fsub (Finite x_val) (dx ! nat j))) (Finite (dy ! nat j))
          in if r \<noteq> NaN then r
             else
               let r2 = fadd (fmul slope (fsub (Finite x_val) (dx ! (nat j + 1))))
                             (Finite (dy ! (nat j + 1)))
               in if r2 = NaN \<and> dy ! nat j = dy ! (nat j + 1) then Finite (dy ! nat j)
                  else r2)"

definition np_interp :: "real list \<Rightarrow> npfloat list \<Rightarrow> real list \<Rightarrow> error + npfloat list" where
  "np_interp x xp fp =
     (if xp = [] then Inl empty_xp_error
      else if length fp \<noteq> length xp then Inl xp_fp_error
      else Inr (map (interp_at xp fp) x))"

section \<open>The estimator\<close>

text \<open>
  Line 64: \<open>weighted_quantiles = np.cumsum(weights) - 0.5 * weights\<close>.
\<close>

definition weighted_quantiles :: "real list \<Rightarrow> real list" where
  "weighted_quantiles weights = map2 (\<lambda>c w. c - 0.5 * w) (cumsum weights) weights"

text \<open>
  Lines 66 to 69, under the comment "Cast weighted quantiles to 0-1 To be consistent
  with np.quantile": \<open>min_val\<close> and \<open>max_val\<close> are both taken from the array as it is
  before the subtraction.
\<close>

definition cast_0_1 :: "real list \<Rightarrow> error + npfloat list" where
  "cast_0_1 wq =
     (case np_min wq of Inl e \<Rightarrow> Inl e | Inr min_val \<Rightarrow>
      (case np_max wq of Inl e \<Rightarrow> Inl e | Inr max_val \<Rightarrow>
        Inr (map (\<lambda>p. fdiv (Finite (p - min_val)) (Finite max_val)) wq)))"

text \<open>
  The function (lines 51 to 71). The conversions to arrays come first, with all-ones
  weights when \<open>weights\<close> is \<open>None\<close>; then the check of the quantiles, the only error
  the function raises itself; then the sort, the positions, their normalization and the
  interpolation, whose numpy calls raise the other errors.
\<close>

definition weighted_quantile ::
  "real list \<Rightarrow> real list \<Rightarrow> real list option \<Rightarrow> error + npfloat list" where
  "weighted_quantile values quantiles weights =
     (let weights = (case weights of None \<Rightarrow> replicate (length values) 1 | Some w \<Rightarrow> w) in
      if \<not> (\<forall>q\<in>set quantiles. 0 \<le> q \<and> q \<le> 1) then Inl quantile_error
      else
        let idx = argsort values in
        (case fancy_index values idx of Inl e \<Rightarrow> Inl e | Inr values' \<Rightarrow>
        (case fancy_index weights idx of Inl e \<Rightarrow> Inl e | Inr weights' \<Rightarrow>
        (case cast_0_1 (weighted_quantiles weights') of Inl e \<Rightarrow> Inl e | Inr wq \<Rightarrow>
          np_interp quantiles wq values'))))"

section \<open>Notions used in the statements\<close>

text \<open>
  The weights the function works with (line 53 to 55): all ones when \<open>weights\<close> is
  omitted.
\<close>

definition the_weights :: "real list \<Rightarrow> real list option \<Rightarrow> real list" where
  "the_weights values weights =
     (case weights of None \<Rightarrow> replicate (length values) 1 | Some w \<Rightarrow> w)"

text \<open>
  The samples and the weights after lines 60 to 62, in the order of \<open>argsort\<close>.
\<close>

definition sorted_values :: "real list \<Rightarrow> real list" where
  "sorted_values a = map (\<lambda>i. a ! i) (argsort a)"

definition sorted_weights :: "real list \<Rightarrow> real list option \<Rightarrow> real list" where
  "sorted_weights values weights = map (\<lambda>i. the_weights values weights ! i) (argsort values)"

text \<open>
  The inputs of the spec's data model: at least one sample, as many weights as samples,
  no negative weight, and a positive one. Omitted weights are all ones and satisfy it.
\<close>

definition nondegenerate :: "real list \<Rightarrow> real list option \<Rightarrow> bool" where
  "nondegenerate values weights \<longleftrightarrow>
     values \<noteq> [] \<and> length (the_weights values weights) = length values
     \<and> (\<forall>w\<in>set (the_weights values weights). 0 \<le> w)
     \<and> (\<exists>w\<in>set (the_weights values weights). 0 < w)"





subsection \<open>The spec's formulas\<close>

text \<open>
  Step 5 of the spec, in its words: \<open>normalized[i] = (position[i] - min(position)) /
  max(position - min(position))\<close>.
\<close>

definition spec_normalized :: "real list \<Rightarrow> real list" where
  "spec_normalized position =
     (let shifted = map (\<lambda>p. p - Min (set position)) position
      in map (\<lambda>s. s / Max (set shifted)) shifted)"

text \<open>
  The standard percentile with linear interpolation that the spec's unweighted
  equivalence refers to: on the sorted samples, the percentile \<open>p\<close> (from 0 to 100) sits
  at the virtual index \<open>p / 100 * (N - 1)\<close>, between its two neighbours.
\<close>

definition linear_percentile :: "real list \<Rightarrow> real \<Rightarrow> real" where
  "linear_percentile S p =
     (let s = sort S; h = p / 100 * real (length S - 1);
          lo = nat \<lfloor>h\<rfloor>; hi = nat \<lceil>h\<rceil>
      in s ! lo + (h - real lo) * (s ! hi - s ! lo))"

section \<open>The function on a store of objects\<close>

text \<open>
  What the caller passes are references to objects, and whether the function leaves them
  as they were depends on which of its operations write in place. Here the store is the
  list of all objects, an address is an index into it, and a computation takes the store
  and returns a result or an error together with the new store.
\<close>

datatype obj = Floats "real list" | NpFloats "npfloat list" | Indices "nat list" | Bools "bool list"

type_synonym addr = nat
type_synonym store = "obj list"
type_synonym 'a st = "store \<Rightarrow> (error + 'a) \<times> store"

definition ret :: "'a \<Rightarrow> 'a st" where
  "ret x s = (Inr x, s)"

definition raise :: "error \<Rightarrow> 'a st" where
  "raise e s = (Inl e, s)"

definition st_bind :: "'a st \<Rightarrow> ('a \<Rightarrow> 'b st) \<Rightarrow> 'b st" where
  "st_bind m f s = (case m s of (Inl e, s') \<Rightarrow> (Inl e, s') | (Inr x, s') \<Rightarrow> f x s')"

definition new :: "obj \<Rightarrow> addr st" where
  "new ob s = (Inr (length s), s @ [ob])"

text \<open>
  Reading the object at an address as an array of one kind; another kind of object
  there is a \<open>TypeError\<close>.
\<close>

definition floats_at :: "addr \<Rightarrow> real list st" where
  "floats_at a s =
     (if a < length s then (case s ! a of Floats xs \<Rightarrow> Inr xs | _ \<Rightarrow> Inl TypeError)
      else Inl TypeError, s)"

definition npfloats_at :: "addr \<Rightarrow> npfloat list st" where
  "npfloats_at a s =
     (if a < length s then (case s ! a of NpFloats xs \<Rightarrow> Inr xs | _ \<Rightarrow> Inl TypeError)
      else Inl TypeError, s)"

definition indices_at :: "addr \<Rightarrow> nat list st" where
  "indices_at a s =
     (if a < length s then (case s ! a of Indices xs \<Rightarrow> Inr xs | _ \<Rightarrow> Inl TypeError)
      else Inl TypeError, s)"

definition bools_at :: "addr \<Rightarrow> bool list st" where
  "bools_at a s =
     (if a < length s then (case s ! a of Bools xs \<Rightarrow> Inr xs | _ \<Rightarrow> Inl TypeError)
      else Inl TypeError, s)"

text \<open>
  The numpy operations of the function, each with its effect on the store. All of them
  (\<open>np.array\<close>, \<open>np.ones\<close>, the comparisons, \<open>&\<close>, \<open>np.argsort\<close>, indexing with an
  index array, \<open>np.cumsum\<close>, the arithmetic operators, \<open>np.interp\<close>) return a new
  array; \<open>np.all\<close>, \<open>len\<close>, \<open>min\<close> and \<open>max\<close> return a scalar. Their values are
  those of the functions above.
\<close>

definition lift :: "error + 'a \<Rightarrow> 'a st" where
  "lift r = (case r of Inl e \<Rightarrow> raise e | Inr x \<Rightarrow> ret x)"

definition np_array :: "addr \<Rightarrow> addr st" where
  "np_array a = st_bind (floats_at a) (\<lambda>xs. new (Floats xs))"

definition len :: "addr \<Rightarrow> nat st" where
  "len a = st_bind (floats_at a) (\<lambda>xs. ret (length xs))"

definition np_ones :: "nat \<Rightarrow> addr st" where
  "np_ones n = new (Floats (replicate n 1))"

definition ge_scalar :: "addr \<Rightarrow> real \<Rightarrow> addr st" where
  "ge_scalar a c = st_bind (floats_at a) (\<lambda>xs. new (Bools (map (\<lambda>x. c \<le> x) xs)))"

definition le_scalar :: "addr \<Rightarrow> real \<Rightarrow> addr st" where
  "le_scalar a c = st_bind (floats_at a) (\<lambda>xs. new (Bools (map (\<lambda>x. x \<le> c) xs)))"

definition and_arrays :: "addr \<Rightarrow> addr \<Rightarrow> addr st" where
  "and_arrays a b =
     st_bind (bools_at a) (\<lambda>xs. st_bind (bools_at b) (\<lambda>ys.
       new (Bools (map2 (\<and>) xs ys))))"

definition np_all :: "addr \<Rightarrow> bool st" where
  "np_all a = st_bind (bools_at a) (\<lambda>xs. ret (list_all (\<lambda>b. b) xs))"

definition np_argsort :: "addr \<Rightarrow> addr st" where
  "np_argsort a = st_bind (floats_at a) (\<lambda>xs. new (Indices (argsort xs)))"

definition getitem :: "addr \<Rightarrow> addr \<Rightarrow> addr st" where
  "getitem a idx =
     st_bind (floats_at a) (\<lambda>xs. st_bind (indices_at idx) (\<lambda>is.
     st_bind (lift (fancy_index xs is)) (\<lambda>ys. new (Floats ys))))"

definition np_cumsum :: "addr \<Rightarrow> addr st" where
  "np_cumsum a = st_bind (floats_at a) (\<lambda>xs. new (Floats (cumsum xs)))"

definition scalar_mul :: "real \<Rightarrow> addr \<Rightarrow> addr st" where
  "scalar_mul c a = st_bind (floats_at a) (\<lambda>xs. new (Floats (map (\<lambda>x. c * x) xs)))"

definition sub_arrays :: "addr \<Rightarrow> addr \<Rightarrow> addr st" where
  "sub_arrays a b =
     st_bind (floats_at a) (\<lambda>xs. st_bind (floats_at b) (\<lambda>ys.
       new (Floats (map2 (\<lambda>x y. x - y) xs ys))))"

definition array_min :: "addr \<Rightarrow> real st" where
  "array_min a = st_bind (floats_at a) (\<lambda>xs. lift (np_min xs))"

definition array_max :: "addr \<Rightarrow> real st" where
  "array_max a = st_bind (floats_at a) (\<lambda>xs. lift (np_max xs))"

definition sub_scalar :: "addr \<Rightarrow> real \<Rightarrow> addr st" where
  "sub_scalar a c = st_bind (floats_at a) (\<lambda>xs. new (Floats (map (\<lambda>x. x - c) xs)))"

definition div_scalar :: "addr \<Rightarrow> real \<Rightarrow> addr st" where
  "div_scalar a c =
     st_bind (floats_at a) (\<lambda>xs. new (NpFloats (map (\<lambda>x. fdiv (Finite x) (Finite c)) xs)))"

definition interp :: "addr \<Rightarrow> addr \<Rightarrow> addr \<Rightarrow> addr st" where
  "interp x xp fp =
     st_bind (floats_at x) (\<lambda>xs. st_bind (npfloats_at xp) (\<lambda>xps. st_bind (floats_at fp) (\<lambda>fps.
     st_bind (lift (np_interp xs xps fps)) (\<lambda>r. new (NpFloats r)))))"

text \<open>
  The function, statement by statement (lines 51 to 71). An assignment to a name that
  is already bound (\<open>values = values[idx]\<close>) rebinds the local name to the new object:
  the \<open>\<lambda>\<close> shadows the earlier address.
\<close>

definition weighted_quantile_st :: "addr \<Rightarrow> addr \<Rightarrow> addr option \<Rightarrow> addr st" where
  "weighted_quantile_st values quantiles weights =
     st_bind (np_array values) (\<lambda>values.
     st_bind (np_array quantiles) (\<lambda>quantiles.
     st_bind (case weights of
                None \<Rightarrow> st_bind (len values) np_ones
              | Some w \<Rightarrow> ret w) (\<lambda>weights.
     st_bind (np_array weights) (\<lambda>weights.
     st_bind (ge_scalar quantiles 0) (\<lambda>ge0.
     st_bind (le_scalar quantiles 1) (\<lambda>le1.
     st_bind (and_arrays ge0 le1) (\<lambda>both.
     st_bind (np_all both) (\<lambda>ok.
     if \<not> ok then raise quantile_error
     else
     st_bind (np_argsort values) (\<lambda>idx.
     st_bind (getitem values idx) (\<lambda>values.
     st_bind (getitem weights idx) (\<lambda>weights.
     st_bind (np_cumsum weights) (\<lambda>cs.
     st_bind (scalar_mul 0.5 weights) (\<lambda>half.
     st_bind (sub_arrays cs half) (\<lambda>weighted_quantiles.
     st_bind (array_min weighted_quantiles) (\<lambda>min_val.
     st_bind (array_max weighted_quantiles) (\<lambda>max_val.
     st_bind (sub_scalar weighted_quantiles min_val) (\<lambda>shifted.
     st_bind (div_scalar shifted max_val) (\<lambda>weighted_quantiles.
     interp quantiles weighted_quantiles values))))))))))))))))))"

text \<open>
  A computation extends the store when it only adds objects: every object that was
  there is at its address, unchanged, afterwards.
\<close>

definition extends :: "'a st \<Rightarrow> bool" where
  "extends m \<longleftrightarrow> (\<forall>s. \<exists>t. snd (m s) = s @ t)"

text \<open>
  The object a run returns, or its error.
\<close>

definition result_of :: "(error + addr) \<times> store \<Rightarrow> error + obj" where
  "result_of r = (case fst r of Inl e \<Rightarrow> Inl e | Inr a \<Rightarrow>
      if a < length (snd r) then Inr (snd r ! a) else Inl TypeError)"

text \<open>
  The caller's \<open>weights\<close> argument: \<open>None\<close>, or the address of an array of floats.
\<close>

definition holds_weights :: "store \<Rightarrow> addr option \<Rightarrow> real list option \<Rightarrow> bool" where
  "holds_weights s w weights =
     (case w of None \<Rightarrow> weights = None
      | Some a \<Rightarrow> a < length s \<and> (\<exists>ws. s ! a = Floats ws \<and> weights = Some ws))"

section \<open>Evaluation\<close>

lemmas eval_defs = weighted_quantile_def argsort_def fancy_index_def cast_0_1_def
  weighted_quantiles_def cumsum_def np_min_def np_max_def np_interp_def interp_at_def
  binary_search_with_guess_def fle_def fsub_def Let_def

section \<open>The quantile check\<close>

lemma cast_0_1_not_quantile_error: "cast_0_1 wq \<noteq> Inl quantile_error"
  by (simp add: cast_0_1_def np_min_def np_max_def quantile_error_def empty_min_error_def
      empty_max_error_def)

lemma np_interp_not_quantile_error: "np_interp x xp fp \<noteq> Inl quantile_error"
  by (simp add: np_interp_def quantile_error_def empty_xp_error_def xp_fp_error_def)

lemma fancy_index_not_quantile_error: "fancy_index a idx \<noteq> Inl quantile_error"
  by (simp add: fancy_index_def quantile_error_def)

text \<open>
  Claim C4. The estimator fails with its quantile error (the \<open>ValueError\<close> "Quantiles
  should be between 0.0 and 1.0") exactly when some requested quantile lies outside
  [0, 1]. The check comes before the sort and every later step, so the error is this one
  whatever the samples and weights are, and an error carries no partial result.
\<close>

theorem invalid_quantile_iff:
  "weighted_quantile values quantiles weights = Inl quantile_error
   \<longleftrightarrow> (\<exists>q\<in>set quantiles. q < 0 \<or> 1 < q)"
proof (cases "\<forall>q\<in>set quantiles. 0 \<le> q \<and> q \<le> 1")
  case True
  then have "\<not> (\<exists>q\<in>set quantiles. q < 0 \<or> 1 < q)" by auto
  moreover from True have "weighted_quantile values quantiles weights \<noteq> Inl quantile_error"
    using cast_0_1_not_quantile_error np_interp_not_quantile_error fancy_index_not_quantile_error
    by (auto simp: weighted_quantile_def Let_def split: sum.splits)
  ultimately show ?thesis by simp
next
  case False
  then have "weighted_quantile values quantiles weights = Inl quantile_error"
    by (simp add: weighted_quantile_def Let_def)
  moreover from False have "\<exists>q\<in>set quantiles. q < 0 \<or> 1 < q" by (auto simp: not_le)
  ultimately show ?thesis by simp
qed

theorem invalid_quantile_iff_witness:
  "weighted_quantile [1, 2] [1 / 2, 3 / 2] (Some [1]) = Inl quantile_error
   \<and> weighted_quantile [1, 2] [1 / 2, 1] None \<noteq> Inl quantile_error"
proof -
  have "\<exists>q\<in>set [1 / 2, 3 / 2 :: real]. q < 0 \<or> 1 < q"
    by (rule bexI [of _ "3 / 2"]) simp_all
  moreover have "\<not> (\<exists>q\<in>set [1 / 2, 1 :: real]. q < 0 \<or> 1 < q)" by simp
  ultimately show ?thesis
    using invalid_quantile_iff [of "[1, 2]" "[1 / 2, 3 / 2]" "Some [1]"]
      invalid_quantile_iff [of "[1, 2]" "[1 / 2, 1]" None]
    by blast
qed

section \<open>Sorting the samples\<close>

lemma set_argsort: "set (argsort a) = {0..<length a}"
  by (simp add: argsort_def)

lemma length_argsort: "length (argsort a) = length a"
  by (simp add: argsort_def)

lemma fancy_index_argsort:
  "length a \<le> length b \<Longrightarrow> fancy_index b (argsort a) = Inr (map (\<lambda>i. b ! i) (argsort a))"
  by (auto simp: fancy_index_def set_argsort)

lemma fancy_index_short:
  "length b < length a \<Longrightarrow> fancy_index b (argsort a) = Inl IndexError"
  by (auto simp: fancy_index_def set_argsort not_less intro!: bexI [of _ "length b"])


lemma length_sorted_values: "length (sorted_values a) = length a"
  by (simp add: sorted_values_def length_argsort)






section \<open>The cumulative positions\<close>












section \<open>Interpolation on finite, non-decreasing points\<close>










lemma fle_Finite [simp]: "fle (Finite a) (Finite b) = (a \<le> b)"
  by (auto simp: fle_def)

lemma fsub_Finite [simp]: "fsub (Finite a) (Finite b) = Finite (a - b)"
  by (simp add: fsub_def)



section \<open>The estimator on non-degenerate weights\<close>

lemma nondegenerate_None: "values \<noteq> [] \<Longrightarrow> nondegenerate values None"
  by (cases "values") (auto simp: nondegenerate_def the_weights_def)






lemma weighted_quantile_unfold:
  "weighted_quantile values quantiles weights =
     (if \<not> (\<forall>q\<in>set quantiles. 0 \<le> q \<and> q \<le> 1) then Inl quantile_error
      else case fancy_index (the_weights values weights) (argsort values) of
             Inl e \<Rightarrow> Inl e
           | Inr ws \<Rightarrow>
               (case cast_0_1 (weighted_quantiles ws) of
                  Inl e \<Rightarrow> Inl e
                | Inr wq \<Rightarrow> np_interp quantiles wq (sorted_values values)))"
  unfolding weighted_quantile_def the_weights_def Let_def sorted_values_def
  by (simp add: fancy_index_argsort)

section \<open>The normalization of the positions\<close>

text \<open>
  Claim C1. The spec's step 5 divides the shifted positions by their own maximum, so
  that they span [0, 1]; the comment above lines 67 to 69 says the same ("Cast weighted
  quantiles to 0-1"). The code takes \<open>max_val\<close> before the subtraction. On four equal
  weights the positions are 0.5, 1.5, 2.5, 3.5: the code yields 0, 2/7, 4/7, 6/7, which
  stops short of 1, where the spec's formula yields 0, 1/3, 2/3, 1.
\<close>

theorem cast_0_1_stops_short_of_1:
  "sorted_weights [10, 20, 30, 40] None = [1, 1, 1, 1]
   \<and> weighted_quantiles [1, 1, 1, 1] = [1 / 2, 3 / 2, 5 / 2, 7 / 2]
   \<and> cast_0_1 (weighted_quantiles [1, 1, 1, 1])
       = Inr [Finite 0, Finite (2 / 7), Finite (4 / 7), Finite (6 / 7)]
   \<and> spec_normalized (weighted_quantiles [1, 1, 1, 1]) = [0, 1 / 3, 2 / 3, 1]"
  by (simp add: eval_defs spec_normalized_def sorted_weights_def the_weights_def upt_rec)

text \<open>
  Claim C2. With weights omitted the estimator should agree with the standard
  linear-interpolation percentile (the docstring: "Analogous to np.quantile"). On the
  samples 10, 20, 30, 40 the median by linear interpolation is 25; the function returns
  27.5, since its interpolation points end at 6/7 instead of 1.
\<close>

theorem unweighted_median_differs:
  "weighted_quantile [10, 20, 30, 40] [1 / 2] None = Inr [Finite (55 / 2)]
   \<and> linear_percentile [10, 20, 30, 40] (1 / 2 * 100) = 25"
  by (simp add: eval_defs linear_percentile_def upt_rec)

theorem unweighted_median_differs_witness:
  "weighted_quantile [10, 20, 30, 40] [1 / 2] None
   \<noteq> Inr [Finite (linear_percentile [10, 20, 30, 40] (1 / 2 * 100))]"
  using unweighted_median_differs by simp

section \<open>Monotonicity\<close>



section \<open>The boundary quantiles\<close>







section \<open>Uniform weights\<close>




lemma fancy_index_replicate:
  "fancy_index (replicate (length values) c) (argsort values) = Inr (replicate (length values) c)"
proof -
  have "map (\<lambda>i. replicate (length values) c ! i) (argsort values)
        = map (\<lambda>i. c) (argsort values)"
    by (rule map_cong) (simp_all add: set_argsort)
  also have "\<dots> = replicate (length values) c"
    by (simp add: map_replicate_const length_argsort)
  finally show ?thesis by (simp add: fancy_index_argsort)
qed



section \<open>A single sample\<close>

text \<open>
  Claim C10. With one sample and a positive weight nothing is divided by zero:
  \<open>max_val\<close> is the position itself (half the weight), the normalized array is the
  single point 0, and every quantile in [0, 1] yields the sample.
\<close>

theorem single_sample:
  assumes "0 < w" "\<forall>q\<in>set quantiles. 0 \<le> q \<and> q \<le> 1"
  shows "cast_0_1 (weighted_quantiles [w]) = Inr [Finite 0]
       \<and> weighted_quantile [v] quantiles (Some [w]) = Inr (map (\<lambda>q. Finite v) quantiles)"
proof -
  have c: "cast_0_1 (weighted_quantiles [w]) = Inr [Finite 0]"
    using assms(1) by (simp add: cast_0_1_def weighted_quantiles_def cumsum_def np_min_def np_max_def)
  have i: "interp_at [Finite 0] [v] q = Finite v" for q
    by (simp add: interp_at_def Let_def)
  have "weighted_quantile [v] quantiles (Some [w]) = np_interp quantiles [Finite 0] [v]"
    using assms(2) c by (simp add: weighted_quantile_def argsort_def fancy_index_def Let_def)
  also have "\<dots> = Inr (map (\<lambda>q. Finite v) quantiles)"
    by (simp add: np_interp_def i)
  finally show ?thesis using c by simp
qed

theorem single_sample_witness:
  "cast_0_1 (weighted_quantiles [3]) = Inr [Finite 0]
   \<and> weighted_quantile [5] [0, 1 / 2, 1] (Some [3]) = Inr [Finite 5, Finite 5, Finite 5]"
  using single_sample [of 3 "[0, 1 / 2, 1]" 5] by simp

section \<open>Weights that are all zero\<close>

text \<open>
  Claim C5, as stated, fails: on all-zero weights the function raises nothing. The
  positions are all 0, the division 0 / 0 yields NaN, and the interpolation returns
  NaN.
\<close>

theorem zero_weights_counterexample:
  "weighted_quantile [1, 2] [1 / 2] (Some [0, 0]) = Inr [NaN]"
  by (simp add: eval_defs upt_rec)

lemma wq_from_zero:
  "map2 (\<lambda>a w. a - 0.5 * w) (cumsum_from acc (replicate n 0)) (replicate n 0) = replicate n acc"
  by (induction n) simp_all

lemma all_zero_replicate: "\<forall>x\<in>set w. x = (0::real) \<Longrightarrow> w = replicate (length w) 0"
  by (induction w) simp_all

lemma interp_at_all_nan:
  assumes "2 \<le> n" "length ys = n" "ys ! 0 \<noteq> ys ! 1"
  shows "interp_at (replicate n NaN) ys q = NaN"
proof -
  from assms(1) obtain m where n: "n = Suc (Suc m)" by (auto simp: numeral_2_eq_2 dest: Suc_le_D)
  have "binary_search_with_guess q (replicate n NaN) = 0"
    unfolding n by (simp add: binary_search_with_guess_def fle_def)
  then show ?thesis using assms(3) unfolding n
    by (simp add: interp_at_def Let_def fsub_def)
qed

text \<open>
  Claim C5, amended. On at least one sample, as many weights, all zero, and quantiles
  in [0, 1], the function raises no error: the normalized positions are all NaN and it
  returns one value per quantile, which is NaN for every quantile when there are two or
  more samples, all different.
\<close>

theorem zero_weights:
  assumes "values \<noteq> []" "length w = length values" "\<forall>x\<in>set w. x = 0"
    "\<forall>q\<in>set quantiles. 0 \<le> q \<and> q \<le> 1"
  shows "cast_0_1 (weighted_quantiles (sorted_weights values (Some w)))
           = Inr (replicate (length values) NaN)
       \<and> (\<exists>r. weighted_quantile values quantiles (Some w) = Inr r
              \<and> length r = length quantiles
              \<and> (2 \<le> length values \<and> distinct values \<longrightarrow> (\<forall>x\<in>set r. x = NaN)))"
proof -
  let ?n = "length values"
  from assms(2,3) have w: "w = replicate ?n 0" using all_zero_replicate [of w] by simp
  have sw: "sorted_weights values (Some w) = replicate ?n 0"
    using fancy_index_replicate [of "values" 0] w
    by (simp add: sorted_weights_def the_weights_def fancy_index_argsort)
  have wq: "weighted_quantiles (replicate ?n 0) = replicate ?n 0"
    using wq_from_zero [of 0 ?n] by (simp add: weighted_quantiles_def cumsum_def)
  have c: "cast_0_1 (replicate ?n 0) = Inr (replicate ?n NaN)"
    using assms(1) by (simp add: cast_0_1_def np_min_def np_max_def)
  have f: "fancy_index w (argsort values) = Inr (replicate ?n 0)"
    using fancy_index_replicate [of "values" 0] w by simp
  let ?r = "map (interp_at (replicate ?n NaN) (sorted_values values)) quantiles"
  have r: "weighted_quantile values quantiles (Some w) = Inr ?r"
    using assms(1,4)
    by (simp add: weighted_quantile_unfold the_weights_def f wq c np_interp_def
        length_sorted_values)
  have "\<forall>x\<in>set ?r. x = NaN" if "2 \<le> ?n" "distinct values"
  proof -
    have "distinct (sorted_values values)"
      unfolding sorted_values_def
      by (rule distinct_map [THEN iffD2])
        (auto simp: argsort_def set_argsort intro!: inj_on_nth that(2))
    moreover have "0 < length (sorted_values values)" "1 < length (sorted_values values)"
      using that(1) by (auto simp: length_sorted_values)
    ultimately have "sorted_values values ! 0 \<noteq> sorted_values values ! 1"
      by (simp add: nth_eq_iff_index_eq)
    then show ?thesis
      using interp_at_all_nan [OF that(1) length_sorted_values] by simp
  qed
  then show ?thesis using sw wq c r by auto
qed

theorem zero_weights_witness:
  "cast_0_1 (weighted_quantiles (sorted_weights [1, 2] (Some [0, 0]))) = Inr [NaN, NaN]
   \<and> (\<exists>r. weighted_quantile [1, 2] [1 / 2] (Some [0, 0]) = Inr r \<and> length r = 1
          \<and> (\<forall>x\<in>set r. x = NaN))"
  using zero_weights [of "[1, 2]" "[0, 0]" "[1 / 2]"]
  by (simp add: numeral_eq_Suc)

section \<open>Weights of another length\<close>

text \<open>
  Claim C6, as stated, fails: three weights on two samples raise nothing; the function
  returns the result of the first two weights.
\<close>

theorem longer_weights_counterexample:
  "weighted_quantile [1, 2] [1 / 2] (Some [1, 1, 1]) = Inr [Finite (7 / 4)]"
  by (simp add: eval_defs upt_rec)

text \<open>
  Claim C6, amended. Fewer weights than samples (and quantiles in [0, 1]) raise
  \<open>IndexError\<close>, at the reordering of the weights in line 62. More weights than samples
  raise no error of their own: the weights beyond the number of samples are ignored.
\<close>

theorem weights_length_mismatch:
  "(length w < length values \<and> (\<forall>q\<in>set quantiles. 0 \<le> q \<and> q \<le> 1)
      \<longrightarrow> weighted_quantile values quantiles (Some w) = Inl IndexError)
   \<and> (length values \<le> length w
      \<longrightarrow> weighted_quantile values quantiles (Some w)
          = weighted_quantile values quantiles (Some (take (length values) w)))"
proof (intro conjI impI)
  assume "length w < length values \<and> (\<forall>q\<in>set quantiles. 0 \<le> q \<and> q \<le> 1)"
  then show "weighted_quantile values quantiles (Some w) = Inl IndexError"
    by (simp add: weighted_quantile_def fancy_index_short fancy_index_argsort Let_def)
next
  assume le: "length values \<le> length w"
  have "map (\<lambda>i. take (length values) w ! i) (argsort values) = map (\<lambda>i. w ! i) (argsort values)"
    by (rule map_cong) (simp_all add: set_argsort)
  then have "fancy_index (take (length values) w) (argsort values) = fancy_index w (argsort values)"
    using le by (simp add: fancy_index_argsort)
  then show "weighted_quantile values quantiles (Some w)
          = weighted_quantile values quantiles (Some (take (length values) w))"
    by (simp add: weighted_quantile_unfold the_weights_def)
qed

theorem weights_length_mismatch_witness:
  "weighted_quantile [1, 2] [1 / 2] (Some [1]) = Inl IndexError
   \<and> weighted_quantile [1, 2] [1 / 2] (Some [1, 3, 5])
       = weighted_quantile [1, 2] [1 / 2] (Some [1, 3])"
  using weights_length_mismatch [of "[1]" "[1, 2]" "[1 / 2]"]
    weights_length_mismatch [of "[1, 3, 5]" "[1, 2]" "[1 / 2]"]
  by simp

section \<open>The inputs are left unchanged\<close>

lemma extends_ret: "extends (ret x)"
  by (simp add: extends_def ret_def)

lemma extends_raise: "extends (raise e)"
  by (simp add: extends_def raise_def)

lemma extends_new: "extends (new ob)"
  by (simp add: extends_def new_def)

lemma extends_lift: "extends (lift r)"
  by (cases r) (simp_all add: lift_def extends_ret extends_raise)

lemma extends_at:
  "extends (floats_at a)" "extends (npfloats_at a)" "extends (indices_at a)"
  "extends (bools_at a)"
  by (simp_all add: extends_def floats_at_def npfloats_at_def indices_at_def bools_at_def)

lemma extends_bind:
  assumes "extends m" "\<And>x. extends (f x)"
  shows "extends (st_bind m f)"
  unfolding extends_def
proof
  fix s
  from assms(1) obtain t where t: "snd (m s) = s @ t" by (auto simp: extends_def)
  show "\<exists>u. snd (st_bind m f s) = s @ u"
  proof (cases "m s")
    case (Pair r s')
    with t have s': "s' = s @ t" by simp
    show ?thesis
    proof (cases r)
      case (Inl e)
      with Pair s' show ?thesis by (simp add: st_bind_def)
    next
      case (Inr x)
      from assms(2) [of x] obtain u where "snd (f x s') = s' @ u" by (auto simp: extends_def)
      with Pair Inr s' show ?thesis by (simp add: st_bind_def)
    qed
  qed
qed

lemmas extends_intros = extends_bind extends_ret extends_raise extends_new extends_lift
  extends_at

lemma extends_ops:
  "extends (np_array a)" "extends (len a)" "extends (np_ones n)" "extends (ge_scalar a c)"
  "extends (le_scalar a c)" "extends (and_arrays a b)" "extends (np_all a)"
  "extends (np_argsort a)" "extends (getitem a b)" "extends (np_cumsum a)"
  "extends (scalar_mul c a)" "extends (sub_arrays a b)" "extends (array_min a)"
  "extends (array_max a)" "extends (sub_scalar a c)" "extends (div_scalar a c)"
  "extends (interp a b d)"
  unfolding np_array_def len_def np_ones_def ge_scalar_def le_scalar_def and_arrays_def
    np_all_def np_argsort_def getitem_def np_cumsum_def scalar_mul_def sub_arrays_def
    array_min_def array_max_def sub_scalar_def div_scalar_def interp_def
  by (intro extends_intros)+

lemma extends_weighted_quantile_st: "extends (weighted_quantile_st values quantiles weights)"
proof -
  have w: "extends (case weights of None \<Rightarrow> st_bind (len a) np_ones | Some w \<Rightarrow> ret w)" for a
    by (cases weights) (simp_all add: extends_bind extends_ops extends_ret)
  show ?thesis
    unfolding weighted_quantile_st_def
    by (intro extends_bind extends_ops w conjI allI impI extends_raise | simp only: if_split)+
qed

lemma at_run:
  "a < length s \<Longrightarrow> s ! a = Floats xs \<Longrightarrow> floats_at a s = (Inr xs, s)"
  "a < length s \<Longrightarrow> s ! a = NpFloats ys \<Longrightarrow> npfloats_at a s = (Inr ys, s)"
  "a < length s \<Longrightarrow> s ! a = Indices is \<Longrightarrow> indices_at a s = (Inr is, s)"
  "a < length s \<Longrightarrow> s ! a = Bools bs \<Longrightarrow> bools_at a s = (Inr bs, s)"
  by (simp_all add: floats_at_def npfloats_at_def indices_at_def bools_at_def)

lemma bind_run: "m s = (Inr x, s') \<Longrightarrow> st_bind m f s = f x s'"
  by (simp add: st_bind_def)

lemma bind_fail: "m s = (Inl e, s') \<Longrightarrow> st_bind m f s = (Inl e, s')"
  by (simp add: st_bind_def)

lemma quantile_check:
  "list_all (\<lambda>b. b) (map2 (\<and>) (map (\<lambda>x. 0 \<le> x) qs) (map (\<lambda>x. x \<le> 1) qs))
   \<longleftrightarrow> (\<forall>q\<in>set qs. 0 \<le> q \<and> q \<le> (1::real))"
  by (induction qs) simp_all

lemmas st_defs = np_array_def len_def np_ones_def ge_scalar_def le_scalar_def and_arrays_def
    np_all_def np_argsort_def getitem_def np_cumsum_def scalar_mul_def sub_arrays_def
    array_min_def array_max_def sub_scalar_def div_scalar_def interp_def
    st_bind_def new_def ret_def raise_def lift_def
    floats_at_def npfloats_at_def indices_at_def bools_at_def

lemma weighted_quantiles_map2':
  "map2 (-) (cumsum ws) (map (\<lambda>x. x / 2) ws) = weighted_quantiles ws"
  by (simp add: weighted_quantiles_def zip_map2 split_def)

lemma fancy_index_self: "fancy_index a (argsort a) = Inr (map (\<lambda>i. a ! i) (argsort a))"
  by (simp add: fancy_index_def argsort_def)

lemma run_result:
  assumes "v < length s" "s ! v = Floats values" "q < length s" "s ! q = Floats quantiles"
    "holds_weights s w weights"
  shows "result_of (weighted_quantile_st v q w s)
     = map_sum id NpFloats (weighted_quantile values quantiles weights)"
proof (cases "\<forall>q\<in>set quantiles. 0 \<le> q \<and> q \<le> 1")
  case False
  with assms show ?thesis
    by (cases w) (auto simp: weighted_quantile_st_def st_defs nth_append result_of_def
      weighted_quantile_def quantile_check holds_weights_def)
next
  case ok: True
  define ws where "ws = (case weights of None \<Rightarrow> replicate (length values) 1 | Some x \<Rightarrow> x)"
  note S = weighted_quantile_st_def st_defs nth_append result_of_def
      weighted_quantile_def cast_0_1_def Let_def quantile_check weighted_quantiles_map2'
      fancy_index_self comp_def holds_weights_def ws_def
  show ?thesis
  proof (cases "fancy_index ws (argsort values)")
    case (Inl e)
    with assms ok show ?thesis by (cases w) (auto simp: S)
  next
    case ws': (Inr ws')
    show ?thesis
    proof (cases "np_min (weighted_quantiles ws')")
      case (Inl e)
      with assms ok ws' show ?thesis by (cases w) (auto simp: S)
    next
      case mn: (Inr min_val)
      show ?thesis
      proof (cases "np_max (weighted_quantiles ws')")
        case (Inl e)
        with assms ok ws' mn show ?thesis by (cases w) (auto simp: S)
      next
        case mx: (Inr max_val)
        show ?thesis
        proof (cases "np_interp quantiles
            (map (\<lambda>p. fdiv (Finite (p - min_val)) (Finite max_val)) (weighted_quantiles ws'))
            (map (\<lambda>i. values ! i) (argsort values))")
          case (Inl e)
          with assms ok ws' mn mx show ?thesis by (cases w) (auto simp: S simp del: fdiv.simps)
        next
          case (Inr r)
          with assms ok ws' mn mx show ?thesis by (cases w) (auto simp: S simp del: fdiv.simps)
        qed
      qed
    qed
  qed
qed

lemma holds_weights_append: "holds_weights s w weights \<Longrightarrow> holds_weights (s @ t) w weights"
  by (cases w) (auto simp: holds_weights_def nth_append)

text \<open>
  Claim C9. The function mutates none of its inputs: run on any store in which the
  caller's \<open>values\<close>, \<open>quantiles\<close> and \<open>weights\<close> are arrays of floats, it only adds
  objects to the store, so the three inputs (and every other object) are unchanged
  after the call; what it returns is the pure function \<open>weighted_quantile\<close> of the
  contents of the three arguments, whatever else the store holds; and a further call
  on the same samples and weights, with any quantile request, returns what the pure
  function gives for these samples and weights.
\<close>

theorem inputs_unchanged:
  assumes "v < length s" "s ! v = Floats values" "q < length s" "s ! q = Floats quantiles"
    "holds_weights s w weights"
  shows "(\<exists>t. snd (weighted_quantile_st v q w s) = s @ t)
       \<and> result_of (weighted_quantile_st v q w s)
           = map_sum id NpFloats (weighted_quantile values quantiles weights)
       \<and> (\<forall>q' quantiles'.
             q' < length (snd (weighted_quantile_st v q w s))
             \<and> snd (weighted_quantile_st v q w s) ! q' = Floats quantiles'
             \<longrightarrow> result_of (weighted_quantile_st v q' w (snd (weighted_quantile_st v q w s)))
                 = map_sum id NpFloats (weighted_quantile values quantiles' weights))"
proof -
  from extends_weighted_quantile_st [of v q w]
  obtain t where t: "snd (weighted_quantile_st v q w s) = s @ t"
    by (auto simp: extends_def)
  have v': "v < length (s @ t)" "(s @ t) ! v = Floats values"
    using assms(1,2) by (simp_all add: nth_append)
  have w': "holds_weights (s @ t) w weights"
    using assms(5) by (rule holds_weights_append)
  have "result_of (weighted_quantile_st v q' w (s @ t))
          = map_sum id NpFloats (weighted_quantile values quantiles' weights)"
    if "q' < length (s @ t)" "(s @ t) ! q' = Floats quantiles'" for q' quantiles'
    using v' that w' by (rule run_result)
  then show ?thesis
    using t run_result [OF assms] by simp
qed

theorem inputs_unchanged_witness:
  "(\<exists>t. snd (weighted_quantile_st 0 1 (Some 2)
                [Floats [10, 20, 30], Floats [1 / 2], Floats [1, 1, 2]])
          = [Floats [10, 20, 30], Floats [1 / 2], Floats [1, 1, 2]] @ t)
   \<and> result_of (weighted_quantile_st 0 1 (Some 2)
                [Floats [10, 20, 30], Floats [1 / 2], Floats [1, 1, 2]])
       = Inr (NpFloats [Finite (70 / 3)])
   \<and> result_of (weighted_quantile_st 0 1 (Some 2)
         (snd (weighted_quantile_st 0 1 (Some 2)
                [Floats [10, 20, 30], Floats [1 / 2], Floats [1, 1, 2]])))
       = Inr (NpFloats [Finite (70 / 3)])"
proof -
  let ?s = "[Floats [10, 20, 30], Floats [1 / 2], Floats [1, 1, 2]]"
  have e: "weighted_quantile [10, 20, 30] [1 / 2] (Some [1, 1, 2]) = Inr [Finite (70 / 3)]"
    by (simp add: eval_defs upt_rec)
  have h: "holds_weights ?s (Some 2) (Some [1, 1, 2])"
    by (simp add: holds_weights_def)
  have p: "0 < length ?s" "?s ! 0 = Floats [10, 20, 30]" "1 < length ?s" "?s ! 1 = Floats [1 / 2]"
    by simp_all
  note th = inputs_unchanged [OF p h]
  from th obtain t where t: "snd (weighted_quantile_st 0 1 (Some 2) ?s) = ?s @ t" by blast
  from th have r: "result_of (weighted_quantile_st 0 1 (Some 2) ?s)
       = Inr (NpFloats [Finite (70 / 3)])" by (simp add: e)
  have "1 < length (snd (weighted_quantile_st 0 1 (Some 2) ?s))
      \<and> snd (weighted_quantile_st 0 1 (Some 2) ?s) ! 1 = Floats [1 / 2]"
    unfolding t by simp
  with th have "result_of (weighted_quantile_st 0 1 (Some 2)
         (snd (weighted_quantile_st 0 1 (Some 2) ?s)))
       = Inr (NpFloats [Finite (70 / 3)])" by (simp add: e)
  with t r show ?thesis by simp
qed

end
